theory Spec2Isabelle
  imports Main "HOL-Library.Sublist"
begin

section \<open>JavaScript string primitives used by the sources\<close>

text \<open>
  A JavaScript string is a finite sequence of code units; it is modelled as a
  \<^typ>\<open>string\<close>, one \<^typ>\<open>char\<close> per code unit. Only the library methods
  the sources call are modelled, each with the clamping the language definition
  gives it.
\<close>

text \<open>\<^verbatim>\<open>s.startsWith(pat)\<close>\<close>

definition startsWith :: "string \<Rightarrow> string \<Rightarrow> bool" where
  "startsWith s pat = (take (length pat) s = pat)"

text \<open>
  \<^verbatim>\<open>s.indexOf(pat, fromIndex)\<close>: the least position \<open>k \<ge> fromIndex\<close> at
  which \<open>pat\<close> occurs in \<open>s\<close>, and \<open>-1\<close> when there is none. \<open>scanFrom\<close>
  walks the rest of the string, \<open>k\<close> being the position of its first code unit.
\<close>

fun scanFrom :: "string \<Rightarrow> string \<Rightarrow> nat \<Rightarrow> int" where
  "scanFrom pat [] k = (if pat = [] then int k else - 1)"
| "scanFrom pat (c # cs) k =
     (if take (length pat) (c # cs) = pat then int k else scanFrom pat cs (Suc k))"

definition indexOf :: "string \<Rightarrow> string \<Rightarrow> nat \<Rightarrow> int" where
  "indexOf s pat fromIndex =
     (let k = min fromIndex (length s) in scanFrom pat (drop k s) k)"

text \<open>
  \<^verbatim>\<open>s.slice(start, end)\<close> and \<^verbatim>\<open>s.slice(start)\<close>: a negative index counts
  from the end, and both indices are clamped to the string.
\<close>

definition sliceIndex :: "nat \<Rightarrow> int \<Rightarrow> nat" where
  "sliceIndex n i = (if i < 0 then nat (max (int n + i) 0) else min (nat i) n)"

definition slice :: "string \<Rightarrow> int \<Rightarrow> int \<Rightarrow> string" where
  "slice s start end =
     (let from = sliceIndex (length s) start; to = sliceIndex (length s) end
      in take (to - from) (drop from s))"

definition sliceFrom :: "string \<Rightarrow> int \<Rightarrow> string" where
  "sliceFrom s start = drop (sliceIndex (length s) start) s"

section \<open>utils/string-handling.ts\<close>

definition FRONT_MATTER_BOUNDARY :: string where
  "FRONT_MATTER_BOUNDARY = [CHR ''-'', CHR ''-'', CHR ''-'', CHR 0x0A]"

definition containsFrontMatter :: "string \<Rightarrow> bool" where
  "containsFrontMatter noteContent =
     (startsWith noteContent FRONT_MATTER_BOUNDARY \<and>
      indexOf noteContent FRONT_MATTER_BOUNDARY 4 > - 1)"

record NoteContentParts =
  frontMatter :: string
  body :: string

definition extractNoteContentParts :: "string \<Rightarrow> NoteContentParts" where
  "extractNoteContentParts noteContent =
     (let bodyStartPos = indexOf noteContent FRONT_MATTER_BOUNDARY 4 + 4
      in if containsFrontMatter noteContent
         then \<lparr> frontMatter = slice noteContent 0 bodyStartPos,
                body = sliceFrom noteContent bodyStartPos \<rparr>
         else \<lparr> frontMatter = [], body = noteContent \<rparr>)"

section \<open>JavaScript values\<close>

text \<open>
  Front matter is parsed YAML, typed \<^verbatim>\<open>any\<close> in the sources. Its values are
  modelled by the variants YAML produces. A number is given by the two things
  the sources observe of it: whether it is truthy (neither zero nor NaN) and the
  string that coercion to a string gives for it. A property that is absent reads
  as \<^verbatim>\<open>undefined\<close>, which is \<open>None\<close> at the place of the access.
\<close>

datatype js_value =
    JNull
  | JBool bool
  | JNum (numberTruthy: bool) (numberString: string)
  | JStr string
  | JArr "js_value list"
  | JObj "(string \<times> js_value) list"

text \<open>Truthiness, as \<^verbatim>\<open>&&\<close>, \<^verbatim>\<open>||\<close>, \<^verbatim>\<open>!\<close> and \<^verbatim>\<open>?:\<close> test it.\<close>

fun truthy :: "js_value \<Rightarrow> bool" where
  "truthy JNull = False"
| "truthy (JBool b) = b"
| "truthy (JNum t s) = t"
| "truthy (JStr s) = (s \<noteq> [])"
| "truthy (JArr xs) = True"
| "truthy (JObj kvs) = True"

text \<open>A string-valued property that may be absent: truthy when present and non-empty.\<close>

fun truthyString :: "string option \<Rightarrow> bool" where
  "truthyString None = False"
| "truthyString (Some s) = (s \<noteq> [])"

fun truthyValue :: "js_value option \<Rightarrow> bool" where
  "truthyValue None = False"
| "truthyValue (Some v) = truthy v"

text \<open>\<^verbatim>\<open>xs.join(sep)\<close> on an array of strings.\<close>

fun join :: "string \<Rightarrow> string list \<Rightarrow> string" where
  "join sep [] = []"
| "join sep [x] = x"
| "join sep (x # y # ys) = x @ sep @ join sep (y # ys)"

text \<open>Decimal numerals of array indices.\<close>

definition digitChar :: "nat \<Rightarrow> char" where
  "digitChar d = ''0123456789'' ! d"

function showNat :: "nat \<Rightarrow> string" where
  "showNat n = (if n < 10 then [digitChar n] else showNat (n div 10) @ [digitChar (n mod 10)])"
  by pat_completeness auto
termination
  by (relation "measure (\<lambda>n. n)") auto

declare showNat.simps [simp del]

text \<open>
  String coercion, as the template literal \<^verbatim>\<open>`${u}`\<close> performs it. An array
  joins the coercions of its elements with commas, \<^verbatim>\<open>null\<close> elements giving
  the empty string.
\<close>

fun toString :: "js_value \<Rightarrow> string" where
  "toString JNull = ''null''"
| "toString (JBool b) = (if b then ''true'' else ''false'')"
| "toString (JNum t s) = s"
| "toString (JStr s) = s"
| "toString (JArr xs) = join '','' (map (\<lambda>x. if x = JNull then [] else toString x) xs)"
| "toString (JObj kvs) = ''[object Object]''"

text \<open>\<^verbatim>\<open>xs.flat()\<close> flattens one level; \<^verbatim>\<open>xs.flatMap(f)\<close> is \<^verbatim>\<open>xs.map(f).flat()\<close>.\<close>

fun flat :: "js_value list \<Rightarrow> js_value list" where
  "flat [] = []"
| "flat (JArr ys # xs) = ys @ flat xs"
| "flat (x # xs) = x # flat xs"

definition flatMap :: "(js_value \<Rightarrow> js_value) \<Rightarrow> js_value list \<Rightarrow> js_value list" where
  "flatMap f xs = flat (map f xs)"

definition includes_js :: "js_value list \<Rightarrow> js_value \<Rightarrow> bool" where
  "includes_js xs v = (v \<in> set xs)"

section \<open>Result objects (utils/results-handling, types)\<close>

text \<open>
  Modelled from the spec: the modules \<^verbatim>\<open>utils/results-handling\<close> and
  \<^verbatim>\<open>types\<close> are not among the sources. A result is a tagged union: the
  success variant carries its payload, the failure variant a numeric error code
  and a message; \<^verbatim>\<open>success(x)\<close> and \<^verbatim>\<open>failure(code, message)\<close> build the
  two variants and \<^verbatim>\<open>isSuccess\<close> tells them apart. Of the enum
  \<^verbatim>\<open>ErrorCode\<close> the sources name two members; the spec gives feature-unavailable
  a code distinct from not-found, so they are two constructors. A numeric
  literal passed as a code (\<^verbatim>\<open>failure(404, ...)\<close>) is \<open>Status\<close>.
\<close>

datatype ErrorCode = NotFound | FeatureUnavailable

datatype error_code = Status nat | Member ErrorCode

datatype ('a, 'm) ResultObject =
    success (result: 'a)
  | failure (errorCode: error_code) (errorMessage: 'm)

fun isSuccess :: "('a, 'm) ResultObject \<Rightarrow> bool" where
  "isSuccess (success x) = True"
| "isSuccess (failure c m) = False"

text \<open>
  The table \<^verbatim>\<open>STRINGS\<close> of \<^verbatim>\<open>constants\<close> is not among the sources
  either. Its texts are left open: a message read from the table is identified
  by the key it is read under.
\<close>

datatype PeriodicNoteType = DailyNote | WeeklyNote | MonthlyNote | QuarterlyNote | YearlyNote

datatype STRINGS = faulty_note_targeting | note_not_found | feature_not_available PeriodicNoteType

section \<open>The environment read through \<^verbatim>\<open>obsEnv\<close> and the plugin interfaces\<close>

datatype TFile = TFile (path: string)

record CachedMetadata =
  frontmatter :: "(string \<times> js_value) list option"

record FileCacheEntry =
  hash :: string
  mtime :: nat
  size :: nat

text \<open>
  \<open>metadataCache\<close> and \<open>fileCache\<close> are the two dictionaries of
  \<^verbatim>\<open>app.metadataCache\<close> in the order \<^verbatim>\<open>Object.entries\<close> lists them;
  \<open>getMarkdownFiles\<close> is \<^verbatim>\<open>app.vault.getMarkdownFiles()\<close>; \<open>getFileCache\<close> is
  \<^verbatim>\<open>app.metadataCache.getFileCache\<close>; \<open>pluginLoaded\<close> stands for the five
  \<^verbatim>\<open>appHas...NotesPluginLoaded\<close> and \<open>currentPeriodNote\<close> for the five
  \<^verbatim>\<open>get...Note(now, getAll...Notes())\<close> of the periodic-notes interface;
  \<open>existingNotePath\<close> is whether \<^verbatim>\<open>zodExistingNotePath.safeParse\<close> succeeds.
\<close>

record obsEnv =
  metadataCache :: "(string \<times> CachedMetadata) list"
  fileCache :: "(string \<times> FileCacheEntry) list"
  getMarkdownFiles :: "TFile list"
  getFileCache :: "TFile \<Rightarrow> CachedMetadata option"
  pluginLoaded :: "PeriodicNoteType \<Rightarrow> bool"
  currentPeriodNote :: "PeriodicNoteType \<Rightarrow> TFile option"
  existingNotePath :: "string \<Rightarrow> bool"

text \<open>
  \<^verbatim>\<open>parseFrontMatterEntry(frontmatter, key)\<close> of the host API: the entry stored
  under a string key, \<^verbatim>\<open>null\<close> when there is no front matter or no such entry.
\<close>

definition parseFrontMatterEntry :: "(string \<times> js_value) list option \<Rightarrow> string \<Rightarrow> js_value" where
  "parseFrontMatterEntry fm key =
     (case fm of
        None \<Rightarrow> JNull
      | Some entries \<Rightarrow> (case map_of entries key of None \<Rightarrow> JNull | Some v \<Rightarrow> v))"

section \<open>utils/periodic-notes-handling\<close>

text \<open>
  The function that tells whether the periodic-notes feature of a period type is
  available and, if so, where the note of the current period is.
  \<^verbatim>\<open>parameters.ts\<close> imports it as \<^verbatim>\<open>getPeriodNotePathIfPluginIsAvailable\<close>.
  The \<^verbatim>\<open>switch\<close> over the five period types selects the two functions of the
  interface, which the environment gives by period type.
\<close>

definition getExistingPeriodNotePathIfPluginIsAvailable ::
  "'e obsEnv_scheme \<Rightarrow> PeriodicNoteType \<Rightarrow> (string, STRINGS) ResultObject" where
  "getExistingPeriodNotePathIfPluginIsAvailable env periodicNoteType =
     (if \<not> pluginLoaded env periodicNoteType
      then failure (Member FeatureUnavailable) (feature_not_available periodicNoteType)
      else (case currentPeriodNote env periodicNoteType of
              Some pNote \<Rightarrow> success (TFile.path pNote)
            | None \<Rightarrow> failure (Member NotFound) note_not_found))"

section \<open>utils/parameters.ts\<close>

definition uidKey :: string where
  "uidKey = ''uid''"

text \<open>The predicate of the first \<^verbatim>\<open>find\<close> of \<open>findPathForUIDInMetadataCache\<close>.\<close>

definition cachedMatchesUID :: "string \<Rightarrow> CachedMetadata \<Rightarrow> bool" where
  "cachedMatchesUID u cached =
     (case frontmatter cached of
        None \<Rightarrow> False
      | Some entries \<Rightarrow>
          (case map_of entries uidKey of
             None \<Rightarrow> False
           | Some v \<Rightarrow>
               truthy v \<and> includes_js (map (\<lambda>x. JStr (toString x)) (flat [v])) (JStr u)))"

definition findPathForUIDInMetadataCache :: "'e obsEnv_scheme \<Rightarrow> string \<Rightarrow> string option" where
  "findPathForUIDInMetadataCache env u =
     (let found = map_option fst (find (\<lambda>(_, cached). cachedMatchesUID u cached) (metadataCache env));
          filePath = map_option fst (find (\<lambda>(_, cache). Some (hash cache) = found) (fileCache env))
      in filePath)"

text \<open>The predicate of the \<^verbatim>\<open>find\<close> of \<open>findPathForUIDInMarkdownFiles\<close>.\<close>

definition noteMatchesUID :: "'e obsEnv_scheme \<Rightarrow> string \<Rightarrow> TFile \<Rightarrow> bool" where
  "noteMatchesUID env u note =
     (let uidValues =
            parseFrontMatterEntry
              (case getFileCache env note of None \<Rightarrow> None | Some c \<Rightarrow> frontmatter c) uidKey
      in includes_js (flatMap (\<lambda>x. JStr (toString x)) [uidValues]) (JStr u))"

definition findPathForUIDInMarkdownFiles :: "'e obsEnv_scheme \<Rightarrow> string \<Rightarrow> string option" where
  "findPathForUIDInMarkdownFiles env u =
     map_option TFile.path (find (noteMatchesUID env u) (getMarkdownFiles env))"

text \<open>\<^verbatim>\<open>a || b\<close> on paths that may be \<^verbatim>\<open>undefined\<close>.\<close>

definition orElse :: "string option \<Rightarrow> string option \<Rightarrow> string option" where
  "orElse a b = (if truthyString a then a else b)"

definition filepathForUID :: "'e obsEnv_scheme \<Rightarrow> string \<Rightarrow> (string, STRINGS) ResultObject" where
  "filepathForUID env u =
     (let found = orElse (findPathForUIDInMetadataCache env u) (findPathForUIDInMarkdownFiles env u)
      in case found of
           Some p \<Rightarrow> if p \<noteq> [] then success p else failure (Status 404) note_not_found
         | None \<Rightarrow> failure (Status 404) note_not_found)"

record NoteTargetingParams =
  "file" :: "string option"
  uid :: "string option"
  periodic_note :: "PeriodicNoteType option"

text \<open>\<^verbatim>\<open>key in input\<close>\<close>

definition keyIn :: "string \<Rightarrow> 'p NoteTargetingParams_scheme \<Rightarrow> bool" where
  "keyIn key input =
     (if key = ''file'' then file input \<noteq> None
      else if key = ''uid'' then uid input \<noteq> None
      else if key = ''periodic-note'' then periodic_note input \<noteq> None
      else False)"

datatype ZodIssueCode = custom

record 'm IssueData =
  code :: ZodIssueCode
  message :: 'm

text \<open>
  The refinement context collects the issues; \<^verbatim>\<open>ctx.addIssue\<close> appends one.
  \<^verbatim>\<open>z.NEVER\<close> is the value \<open>None\<close>.
\<close>

definition addIssue :: "'m IssueData list \<Rightarrow> 'm IssueData \<Rightarrow> 'm IssueData list" where
  "addIssue ctx issue = ctx @ [issue]"

record NoteTargetingComputedValues =
  inputKey :: string
  path :: string
  pathExists :: bool

record 'p Targeted =
  data :: 'p
  computed :: NoteTargetingComputedValues

definition validateNoteTargetingAndResolvePath ::
  "'e obsEnv_scheme \<Rightarrow> 'p NoteTargetingParams_scheme \<Rightarrow> STRINGS IssueData list \<Rightarrow> bool \<Rightarrow>
     STRINGS IssueData list \<times> ('p NoteTargetingParams_scheme) Targeted option" where
  "validateNoteTargetingAndResolvePath env input ctx throwOnMissingNote =
     (let keysCount = length (filter (\<lambda>key. keyIn key input) [''file'', ''uid'', ''periodic-note''])
      in if keysCount \<noteq> 1
         then (addIssue ctx \<lparr> code = custom, message = faulty_note_targeting \<rparr>, None)
         else
           let (key, p) =
                 (if truthyString (file input) then (''file'', the (file input))
                  else if truthyString (uid input) then
                    (''uid'',
                     let res = filepathForUID env (the (uid input))
                     in if isSuccess res then result res else [])
                  else (case periodic_note input of
                          Some t \<Rightarrow>
                            (''periodic-note'',
                             let res = getExistingPeriodNotePathIfPluginIsAvailable env t
                             in if isSuccess res then result res else [])
                        | None \<Rightarrow> ([], [])));
               exists = (p \<noteq> [] \<and> existingNotePath env p)
           in if \<not> exists \<and> throwOnMissingNote
              then (addIssue ctx \<lparr> code = custom, message = note_not_found \<rparr>, None)
              else (ctx, Some \<lparr> data = input,
                                computed = \<lparr> inputKey = key, path = p, pathExists = exists \<rparr> \<rparr>))"

definition softValidateNoteTargetingAndResolvePath ::
  "'e obsEnv_scheme \<Rightarrow> 'p NoteTargetingParams_scheme \<Rightarrow> STRINGS IssueData list \<Rightarrow>
     STRINGS IssueData list \<times> ('p NoteTargetingParams_scheme) Targeted option" where
  "softValidateNoteTargetingAndResolvePath env input ctx =
     validateNoteTargetingAndResolvePath env input ctx False"

definition hardValidateNoteTargetingAndResolvePath ::
  "'e obsEnv_scheme \<Rightarrow> 'p NoteTargetingParams_scheme \<Rightarrow> STRINGS IssueData list \<Rightarrow>
     STRINGS IssueData list \<times> ('p NoteTargetingParams_scheme) Targeted option" where
  "hardValidateNoteTargetingAndResolvePath env input ctx =
     validateNoteTargetingAndResolvePath env input ctx True"

section \<open>main.ts\<close>

text \<open>
  The source file holds an earlier revision of the plugin class as well, whose
  steps return nothing; the model is of the later revision, whose steps return
  result objects that \<open>handleIncomingCall\<close> collects.
\<close>

text \<open>
  The parameters of a validated call. Every route's parameter type carries the
  optional callback URLs; \<open>silent\<close> is read through a cast to \<^verbatim>\<open>any\<close>. The
  fields particular to a route are the record's extension.
\<close>

record AnyParams =
  x_success :: "string option"
  x_error :: "string option"
  silent :: "js_value option"

text \<open>
  Modelled from the spec: the handler result types of \<^verbatim>\<open>types\<close> are not among
  the sources. A handler's result is a success with its payload and, for the
  handlers that worked on one note, the path of that note
  (\<^verbatim>\<open>processedFilepath\<close>); or a failure with a numeric code and a message.
\<close>

datatype 'r AnyHandlerResult =
    HandlerSuccess (payload: 'r) (processedFilepath: "string option")
  | HandlerFailure (failureCode: error_code) (failureMessage: string)

fun handlerIsSuccess :: "'r AnyHandlerResult \<Rightarrow> bool" where
  "handlerIsSuccess (HandlerSuccess r f) = True"
| "handlerIsSuccess (HandlerFailure c m) = False"

type_synonym StringResultObject = "(string, string) ResultObject"

record ('z, 'r) ProcessingResult =
  params :: "'z AnyParams_scheme"
  handlerResult :: "'r AnyHandlerResult"
  sendCallbackResult :: StringResultObject
  openResult :: StringResultObject

text \<open>
  What a call does besides returning is recorded, in order, as a list of events:
  the call of the route's handler, of \<^verbatim>\<open>sendUrlCallback\<close> (utils/callbacks), of
  \<^verbatim>\<open>focusOrOpenNote\<close>, \<^verbatim>\<open>showBrandedNotice\<close>, \<^verbatim>\<open>logErrorToConsole\<close> and
  \<^verbatim>\<open>logToConsole\<close> (utils/ui).
\<close>

datatype ('z, 'r) event =
    HandlerCalled "'z AnyParams_scheme"
  | SendUrlCallback string "'r AnyHandlerResult" "'z AnyParams_scheme"
  | FocusOrOpenNote string
  | ShowBrandedNotice string
  | LogErrorToConsole string
  | LogToConsole string "('z, 'r) ProcessingResult"

text \<open>
  The two collaborators whose result the pipeline passes on are not among the
  sources; what they return is a parameter.
\<close>

record ('z, 'r) collaborators =
  sendUrlCallback :: "string \<Rightarrow> 'r AnyHandlerResult \<Rightarrow> 'z AnyParams_scheme \<Rightarrow> StringResultObject"
  focusOrOpenNote :: "string \<Rightarrow> StringResultObject"

definition sendUrlCallbackIfNeeded ::
  "('z, 'r) collaborators \<Rightarrow> 'r AnyHandlerResult \<Rightarrow> 'z AnyParams_scheme \<Rightarrow>
     StringResultObject \<times> ('z, 'r) event list" where
  "sendUrlCallbackIfNeeded ext handlerRes ps =
     (if handlerIsSuccess handlerRes
      then (if truthyString (x_success ps)
            then (sendUrlCallback ext (the (x_success ps)) handlerRes ps,
                  [SendUrlCallback (the (x_success ps)) handlerRes ps])
            else (success ''No `x-success` callback URL provided'', []))
      else (if truthyString (x_error ps)
            then (sendUrlCallback ext (the (x_error ps)) handlerRes ps,
                  [SendUrlCallback (the (x_error ps)) handlerRes ps])
            else (success ''No `x-error` callback URL provided'', [])))"

definition openFileIfNeeded ::
  "('z, 'r) collaborators \<Rightarrow> 'r AnyHandlerResult \<Rightarrow> 'z AnyParams_scheme \<Rightarrow>
     StringResultObject \<times> ('z, 'r) event list" where
  "openFileIfNeeded ext hResult ps =
     (if \<not> handlerIsSuccess hResult
      then (success ''No file to open, the handler failed'', [])
      else if truthyValue (silent ps)
      then (success ''No file to open, the `silent` parameter was set'', [])
      else if \<not> truthyString (processedFilepath hResult)
      then (success ''No file to open, handler didn't return a `processedFilepath` property'', [])
      else (focusOrOpenNote ext (the (processedFilepath hResult)),
            [FocusOrOpenNote (the (processedFilepath hResult))]))"

definition handleIncomingCall ::
  "('z, 'r) collaborators \<Rightarrow> ('z AnyParams_scheme \<Rightarrow> 'r AnyHandlerResult) \<Rightarrow> 'z AnyParams_scheme \<Rightarrow>
     ('z, 'r) ProcessingResult \<times> ('z, 'r) event list" where
  "handleIncomingCall ext handlerFunc ps =
     (let hResult = handlerFunc ps;
          (cbResult, cbEvents) = sendUrlCallbackIfNeeded ext hResult ps;
          (opResult, opEvents) = openFileIfNeeded ext hResult ps;
          res = \<lparr> params = ps, handlerResult = hResult,
                  sendCallbackResult = cbResult, openResult = opResult \<rparr>
      in (res, [HandlerCalled ps] @ cbEvents @ opEvents @ [LogToConsole ''Call handled:'' res]))"

text \<open>
  A Zod issue extends the issue data by the path of the field it is about, a
  list of keys and array indices.
\<close>

datatype pathElement = Key string | Index nat

fun pathElementString :: "pathElement \<Rightarrow> string" where
  "pathElementString (Key k) = k"
| "pathElementString (Index i) = showNat i"

record ZodIssue = "string IssueData" +
  path :: "pathElement list"

record ZodError =
  errors :: "ZodIssue list"

text \<open>
  The message is the heading and one line per issue, joined by newlines: the
  array of the heading and of the array of lines is flattened before the join.
\<close>

definition handleParseError :: "ZodError \<Rightarrow> ('z, 'r) event list" where
  "handleParseError parseError =
     (let msg = join [CHR 0x0A]
                  (''Incoming call failed'' #
                   map (\<lambda>issue. ''- '' @ join ''.'' (map pathElementString (ZodIssue.path issue))
                                  @ '': '' @ message issue)
                       (errors parseError))
      in [ShowBrandedNotice msg, LogErrorToConsole msg])"

text \<open>
  The function \<open>registerRoutes\<close> registers for each route: \<open>safeParse\<close> is the
  route's \<^verbatim>\<open>schema.safeParse\<close>, giving the validated parameters or a Zod error.
\<close>

definition protocolHandler ::
  "('z, 'r) collaborators \<Rightarrow> ('i \<Rightarrow> ZodError + 'z AnyParams_scheme) \<Rightarrow>
     ('z AnyParams_scheme \<Rightarrow> 'r AnyHandlerResult) \<Rightarrow> 'i \<Rightarrow> ('z, 'r) event list" where
  "protocolHandler ext safeParse handler incomingParams =
     (case safeParse incomingParams of
        Inr validated \<Rightarrow> snd (handleIncomingCall ext handler validated)
      | Inl parseError \<Rightarrow> handleParseError parseError)"

section \<open>Notions of the specification\<close>

text \<open>
  The number of targeting keys that are present, and the number of those that
  are present and non-empty. A periodic-note designator is one of the five
  period names, none of them empty.
\<close>

definition presentCount :: "'p NoteTargetingParams_scheme \<Rightarrow> nat" where
  "presentCount input =
     (if file input \<noteq> None then 1 else 0) + (if uid input \<noteq> None then 1 else 0) +
     (if periodic_note input \<noteq> None then 1 else 0)"

definition presentNonEmptyCount :: "'p NoteTargetingParams_scheme \<Rightarrow> nat" where
  "presentNonEmptyCount input =
     (if truthyString (file input) then 1 else 0) + (if truthyString (uid input) then 1 else 0) +
     (if periodic_note input \<noteq> None then 1 else 0)"

text \<open>
  The match of a uid, in the words of the specification: the front matter of the
  note contains a \<open>uid\<close> field, a scalar or a list, one of whose values is,
  after coercion to a string, exactly the uid. The front matter of a note is
  what the host reports for it. A uid matches no note when it matches none of
  the markdown notes of the vault.
\<close>

definition frontMatterMatchesUID :: "string \<Rightarrow> (string \<times> js_value) list option \<Rightarrow> bool" where
  "frontMatterMatchesUID u fm =
     (case fm of
        None \<Rightarrow> False
      | Some entries \<Rightarrow>
          (case map_of entries uidKey of
             None \<Rightarrow> False
           | Some v \<Rightarrow> u \<in> set (map toString (case v of JArr vs \<Rightarrow> vs | _ \<Rightarrow> [v]))))"

definition uidMatchesNote :: "'e obsEnv_scheme \<Rightarrow> string \<Rightarrow> TFile \<Rightarrow> bool" where
  "uidMatchesNote env u note =
     frontMatterMatchesUID u
       (case getFileCache env note of None \<Rightarrow> None | Some c \<Rightarrow> frontmatter c)"

definition uidMatchesNoNote :: "'e obsEnv_scheme \<Rightarrow> string \<Rightarrow> bool" where
  "uidMatchesNoNote env u =
     list_all (\<lambda>note. \<not> uidMatchesNote env u note) (getMarkdownFiles env)"

text \<open>
  Every schema of the sources declares the callback fields \<open>x-success\<close> and
  \<open>x-error\<close> as \<^verbatim>\<open>z.string().url()\<close>, which no empty string passes. The
  parameters that reach the pipeline passed \<^verbatim>\<open>safeParse\<close>: a callback field
  that is present in them is not empty.
\<close>

definition callbackUrlsValidated :: "'z AnyParams_scheme \<Rightarrow> bool" where
  "callbackUrlsValidated ps = (x_success ps \<noteq> Some [] \<and> x_error ps \<noteq> Some [])"

text \<open>The kinds of events the ordering of the pipeline is about.\<close>

fun isHandlerCall :: "('z, 'r) event \<Rightarrow> bool" where
  "isHandlerCall (HandlerCalled ps) = True"
| "isHandlerCall e = False"

fun isCallback :: "('z, 'r) event \<Rightarrow> bool" where
  "isCallback (SendUrlCallback url h ps) = True"
| "isCallback e = False"

fun isOpenNote :: "('z, 'r) event \<Rightarrow> bool" where
  "isOpenNote (FocusOrOpenNote p) = True"
| "isOpenNote e = False"

section \<open>Concrete environments and inputs\<close>

text \<open>A vault without notes, with every periodic-notes feature disabled.\<close>

definition emptyVault :: obsEnv where
  "emptyVault =
     \<lparr> metadataCache = [], fileCache = [], getMarkdownFiles = [],
       getFileCache = (\<lambda>f. None), pluginLoaded = (\<lambda>t. False),
       currentPeriodNote = (\<lambda>t. None), existingNotePath = (\<lambda>p. False) \<rparr>"

text \<open>
  A vault with the single note \<^verbatim>\<open>N.md\<close>, whose front matter holds the list
  \<^verbatim>\<open>uid: [abc, def]\<close>. The note was edited once: the metadata cache still
  holds the entry of the old content under the hash \<^verbatim>\<open>h1\<close>, before the
  entry of the current content under \<^verbatim>\<open>h2\<close>, and the file cache refers to
  \<^verbatim>\<open>h2\<close>. \<open>getFileCache\<close> answers from the two dictionaries, as the host does.
\<close>

definition listUidMetadata :: CachedMetadata where
  "listUidMetadata =
     \<lparr> frontmatter = Some [(''title'', JStr ''N''), (''uid'', JArr [JStr ''abc'', JStr ''def''])] \<rparr>"

definition editedNoteVault :: obsEnv where
  "editedNoteVault =
     \<lparr> metadataCache = [(''h1'', listUidMetadata), (''h2'', listUidMetadata)],
       fileCache = [(''N.md'', \<lparr> hash = ''h2'', mtime = 2, size = 40 \<rparr>)],
       getMarkdownFiles = [TFile ''N.md''],
       getFileCache = (\<lambda>f. if TFile.path f = ''N.md'' then Some listUidMetadata else None),
       pluginLoaded = (\<lambda>t. False),
       currentPeriodNote = (\<lambda>t. None),
       existingNotePath = (\<lambda>p. p = ''N.md'') \<rparr>"

text \<open>
  A vault with the single note \<^verbatim>\<open>plain.md\<close>, whose front matter has a title
  and no \<open>uid\<close> field. The two dictionaries and \<open>getFileCache\<close> agree.
\<close>

definition plainMetadata :: CachedMetadata where
  "plainMetadata = \<lparr> frontmatter = Some [(''title'', JStr ''Plain'')] \<rparr>"

definition plainVault :: obsEnv where
  "plainVault =
     \<lparr> metadataCache = [(''h0'', plainMetadata)],
       fileCache = [(''plain.md'', \<lparr> hash = ''h0'', mtime = 1, size = 30 \<rparr>)],
       getMarkdownFiles = [TFile ''plain.md''],
       getFileCache = (\<lambda>f. if TFile.path f = ''plain.md'' then Some plainMetadata else None),
       pluginLoaded = (\<lambda>t. False),
       currentPeriodNote = (\<lambda>t. None),
       existingNotePath = (\<lambda>p. p = ''plain.md'') \<rparr>"

text \<open>Collaborators that report what they did.\<close>

definition reportingCollaborators :: "(unit, string) collaborators" where
  "reportingCollaborators =
     \<lparr> sendUrlCallback = (\<lambda>url h ps. success ''Callback sent''),
       focusOrOpenNote = (\<lambda>p. success ''Note opened'') \<rparr>"

text \<open>Parameters with a success callback, with and without the \<open>silent\<close> flag.\<close>

definition loudParams :: AnyParams where
  "loudParams = \<lparr> x_success = Some ''app://ok'', x_error = None, silent = None \<rparr>"

definition silentParams :: AnyParams where
  "silentParams = \<lparr> x_success = Some ''app://ok'', x_error = None, silent = Some (JBool True) \<rparr>"

text \<open>A Zod error with two issues, the second about an element of an array.\<close>

definition twoIssues :: ZodError where
  "twoIssues =
     \<lparr> errors = [\<lparr> code = custom, message = ''Required'', path = [Key ''file''] \<rparr>,
                 \<lparr> code = custom, message = ''Invalid url'', path = [Key ''items'', Index 0] \<rparr>] \<rparr>"

section \<open>Properties of the string helpers\<close>

lemma scanFrom_bounds:
  "0 \<le> scanFrom pat xs k \<Longrightarrow>
     int k \<le> scanFrom pat xs k \<and> scanFrom pat xs k + int (length pat) \<le> int k + int (length xs)"
proof (induction xs arbitrary: k)
  case Nil
  then show ?case by (simp split: if_splits)
next
  case (Cons c cs)
  show ?case
  proof (cases "take (length pat) (c # cs) = pat")
    case True
    then have "length (take (length pat) (c # cs)) = length pat" by simp
    then have "length pat \<le> length (c # cs)"
      by (simp only: length_take)
    with True show ?thesis by simp
  next
    case False
    with Cons.prems have "0 \<le> scanFrom pat cs (Suc k)" by simp
    from Cons.IH [OF this] False show ?thesis by simp
  qed
qed

lemma indexOf_bounds:
  assumes "0 \<le> indexOf s pat i"
  shows "int (min i (length s)) \<le> indexOf s pat i"
    and "indexOf s pat i + int (length pat) \<le> int (length s)"
proof -
  let ?k = "min i (length s)"
  from assms have nonneg: "0 \<le> scanFrom pat (drop ?k s) ?k"
    by (simp add: indexOf_def Let_def)
  from scanFrom_bounds [OF nonneg]
  show "int (min i (length s)) \<le> indexOf s pat i"
    by (simp add: indexOf_def Let_def)
  from scanFrom_bounds [OF nonneg]
  show "indexOf s pat i + int (length pat) \<le> int (length s)"
    by (simp add: indexOf_def Let_def)
qed

lemma slice_sliceFrom_append:
  "0 \<le> p \<Longrightarrow> slice s 0 p @ sliceFrom s p = s"
  by (simp add: slice_def sliceFrom_def sliceIndex_def Let_def)

text \<open>
  Claim C10. For every string \<open>s\<close>, \<open>extractNoteContentParts\<close> splits \<open>s\<close>
  without loss: the front matter followed by the body is \<open>s\<close> again, and the
  front matter is empty exactly when \<open>containsFrontMatter s\<close> is false.
\<close>

theorem extractNoteContentParts_lossless:
  "frontMatter (extractNoteContentParts s) @ body (extractNoteContentParts s) = s \<and>
   (frontMatter (extractNoteContentParts s) = [] \<longleftrightarrow> \<not> containsFrontMatter s)"
proof (cases "containsFrontMatter s")
  case False
  then show ?thesis by (simp add: extractNoteContentParts_def Let_def)
next
  case True
  define idx where "idx = indexOf s FRONT_MATTER_BOUNDARY 4"
  from True have nonneg: "0 \<le> idx"
    by (simp add: containsFrontMatter_def idx_def)
  from indexOf_bounds(2) [of s FRONT_MATTER_BOUNDARY 4] nonneg
  have fits: "idx + 4 \<le> int (length s)"
    by (simp add: idx_def FRONT_MATTER_BOUNDARY_def)
  have parts: "extractNoteContentParts s =
      \<lparr> frontMatter = slice s 0 (idx + 4), body = sliceFrom s (idx + 4) \<rparr>"
    using True by (simp add: extractNoteContentParts_def Let_def idx_def)
  have whole: "slice s 0 (idx + 4) @ sliceFrom s (idx + 4) = s"
    using nonneg by (simp add: slice_sliceFrom_append)
  have "length (slice s 0 (idx + 4)) = nat (idx + 4)"
    using nonneg fits by (simp add: slice_def sliceIndex_def Let_def)
  with nonneg have "slice s 0 (idx + 4) \<noteq> []" by auto
  with parts whole True show ?thesis by simp
qed

section \<open>Properties of the note-targeting resolver\<close>

lemma keysCount_presentCount:
  "length (filter (\<lambda>key. keyIn key input) [''file'', ''uid'', ''periodic-note'']) = presentCount input"
  by (simp add: keyIn_def presentCount_def)

text \<open>
  Claim C1, as stated, counts the targeting keys that are present and non-empty.
  The resolver counts the keys that are present. With an empty \<open>file\<close> beside a
  non-empty \<open>uid\<close> the stated count is one, yet resolution fails with the
  targeting error; with an empty \<open>file\<close> alone the stated count is zero, yet
  soft resolution raises no issue.
\<close>

theorem faulty_targeting_counterexample:
  "presentNonEmptyCount \<lparr> file = Some [], uid = Some ''abc'', periodic_note = None \<rparr> = 1 \<and>
   softValidateNoteTargetingAndResolvePath emptyVault
       \<lparr> file = Some [], uid = Some ''abc'', periodic_note = None \<rparr> []
     = ([\<lparr> code = custom, message = faulty_note_targeting \<rparr>], None) \<and>
   presentNonEmptyCount \<lparr> file = Some [], uid = None, periodic_note = None \<rparr> = 0 \<and>
   softValidateNoteTargetingAndResolvePath emptyVault
       \<lparr> file = Some [], uid = None, periodic_note = None \<rparr> []
     = ([], Some \<lparr> data = \<lparr> file = Some [], uid = None, periodic_note = None \<rparr>,
                    computed = \<lparr> inputKey = [], path = [], pathExists = False \<rparr> \<rparr>)"
  by (simp add: presentNonEmptyCount_def softValidateNoteTargetingAndResolvePath_def
      validateNoteTargetingAndResolvePath_def keyIn_def addIssue_def emptyVault_def)

text \<open>
  Claim C1, amended. In soft and in hard mode, resolution fails with the
  targeting validation error (the issue \<open>faulty_note_targeting\<close> is added and no
  value is returned) if and only if the number of keys among \<open>file\<close>, \<open>uid\<close>
  and \<open>periodic-note\<close> that are present in the input, empty or not, is not
  exactly one.
\<close>

theorem faulty_targeting_iff_present_count:
  "(softValidateNoteTargetingAndResolvePath env input ctx
      = (ctx @ [\<lparr> code = custom, message = faulty_note_targeting \<rparr>], None)
    \<longleftrightarrow> presentCount input \<noteq> 1) \<and>
   (hardValidateNoteTargetingAndResolvePath env input ctx
      = (ctx @ [\<lparr> code = custom, message = faulty_note_targeting \<rparr>], None)
    \<longleftrightarrow> presentCount input \<noteq> 1)"
  unfolding softValidateNoteTargetingAndResolvePath_def hardValidateNoteTargetingAndResolvePath_def
    validateNoteTargetingAndResolvePath_def keysCount_presentCount
  by (simp add: addIssue_def Let_def split_def)

text \<open>
  Claim C2, as stated, has the resolver fail with the feature-unavailable error.
  With the daily-notes feature disabled, the periodic-notes function does return
  that failure, but soft resolution succeeds with an empty path, and hard
  resolution fails with the note-not-found issue.
\<close>

theorem feature_unavailable_counterexample:
  "getExistingPeriodNotePathIfPluginIsAvailable emptyVault DailyNote
     = failure (Member FeatureUnavailable) (feature_not_available DailyNote) \<and>
   softValidateNoteTargetingAndResolvePath emptyVault
       \<lparr> file = None, uid = None, periodic_note = Some DailyNote \<rparr> []
     = ([], Some \<lparr> data = \<lparr> file = None, uid = None, periodic_note = Some DailyNote \<rparr>,
                    computed = \<lparr> inputKey = ''periodic-note'', path = [], pathExists = False \<rparr> \<rparr>) \<and>
   hardValidateNoteTargetingAndResolvePath emptyVault
       \<lparr> file = None, uid = None, periodic_note = Some DailyNote \<rparr> []
     = ([\<lparr> code = custom, message = note_not_found \<rparr>], None)"
  by (simp add: softValidateNoteTargetingAndResolvePath_def
      hardValidateNoteTargetingAndResolvePath_def
      validateNoteTargetingAndResolvePath_def keyIn_def addIssue_def emptyVault_def
      getExistingPeriodNotePathIfPluginIsAvailable_def)

text \<open>
  Claim C2, amended. For a periodic-note input whose feature is disabled, the
  periodic-notes function returns a failure with the code
  \<open>FeatureUnavailable\<close>, a member of \<open>ErrorCode\<close> other than \<open>NotFound\<close>. The
  resolver keeps only whether that result is a success: the resolved path is
  empty and \<open>pathExists\<close> is false, so soft resolution succeeds without an issue,
  and hard resolution fails with the note-not-found issue.
\<close>

theorem feature_unavailable_folded:
  assumes "file input = None" and "uid input = None" and "periodic_note input = Some t"
    and "\<not> pluginLoaded env t"
  shows "getExistingPeriodNotePathIfPluginIsAvailable env t
           = failure (Member FeatureUnavailable) (feature_not_available t) \<and>
         Member FeatureUnavailable \<noteq> Member NotFound \<and>
         softValidateNoteTargetingAndResolvePath env input ctx
           = (ctx, Some \<lparr> data = input,
                 computed = \<lparr> inputKey = ''periodic-note'', path = [], pathExists = False \<rparr> \<rparr>) \<and>
         hardValidateNoteTargetingAndResolvePath env input ctx
           = (ctx @ [\<lparr> code = custom, message = note_not_found \<rparr>], None)"
  using assms
  by (simp add: softValidateNoteTargetingAndResolvePath_def
      hardValidateNoteTargetingAndResolvePath_def
      validateNoteTargetingAndResolvePath_def keyIn_def addIssue_def
      getExistingPeriodNotePathIfPluginIsAvailable_def)

theorem feature_unavailable_folded_witness:
  "getExistingPeriodNotePathIfPluginIsAvailable emptyVault WeeklyNote
           = failure (Member FeatureUnavailable) (feature_not_available WeeklyNote) \<and>
   softValidateNoteTargetingAndResolvePath emptyVault
       \<lparr> file = None, uid = None, periodic_note = Some WeeklyNote \<rparr> []
     = ([], Some \<lparr> data = \<lparr> file = None, uid = None, periodic_note = Some WeeklyNote \<rparr>,
                 computed = \<lparr> inputKey = ''periodic-note'', path = [], pathExists = False \<rparr> \<rparr>) \<and>
   hardValidateNoteTargetingAndResolvePath emptyVault
       \<lparr> file = None, uid = None, periodic_note = Some WeeklyNote \<rparr> []
     = ([\<lparr> code = custom, message = note_not_found \<rparr>], None)"
  using feature_unavailable_folded [of "\<lparr> file = None, uid = None, periodic_note = Some WeeklyNote \<rparr>"
      WeeklyNote emptyVault "[]"]
  by (simp add: emptyVault_def)

text \<open>
  Claim C3 holds of a correct lookup, and the code misses it. In \<open>plainVault\<close>
  the only note has no \<open>uid\<close> field, so the uid \<^verbatim>\<open>null\<close> matches no note.
  The cache search skips the note, whose \<open>uid\<close> entry is absent. The scan of
  the markdown notes reads the absent entry as \<^verbatim>\<open>null\<close>, coerces it to the
  string \<^verbatim>\<open>null\<close> and accepts the note, without the test for a present entry
  that the cache search makes. Soft and hard resolution both succeed with the
  path \<^verbatim>\<open>plain.md\<close> and \<open>pathExists\<close> true, and hard resolution adds no
  issue, where the claim gives an empty path with \<open>pathExists\<close> false in soft
  mode and the note-not-found issue in hard mode.
\<close>

theorem uid_null_matches_note_without_uid:
  "uidMatchesNoNote plainVault ''null'' \<and>
   findPathForUIDInMetadataCache plainVault ''null'' = None \<and>
   noteMatchesUID plainVault ''null'' (TFile ''plain.md'') \<and>
   filepathForUID plainVault ''null'' = success ''plain.md'' \<and>
   softValidateNoteTargetingAndResolvePath plainVault
       \<lparr> file = None, uid = Some ''null'', periodic_note = None \<rparr> []
     = ([], Some \<lparr> data = \<lparr> file = None, uid = Some ''null'', periodic_note = None \<rparr>,
                 computed = \<lparr> inputKey = ''uid'', path = ''plain.md'', pathExists = True \<rparr> \<rparr>) \<and>
   hardValidateNoteTargetingAndResolvePath plainVault
       \<lparr> file = None, uid = Some ''null'', periodic_note = None \<rparr> []
     = ([], Some \<lparr> data = \<lparr> file = None, uid = Some ''null'', periodic_note = None \<rparr>,
                 computed = \<lparr> inputKey = ''uid'', path = ''plain.md'', pathExists = True \<rparr> \<rparr>)"
proof -
  have nomatch: "uidMatchesNoNote plainVault ''null''"
    by (simp add: uidMatchesNoNote_def uidMatchesNote_def frontMatterMatchesUID_def
        plainVault_def plainMetadata_def uidKey_def)
  have cache: "findPathForUIDInMetadataCache plainVault ''null'' = None"
    by (simp add: findPathForUIDInMetadataCache_def cachedMatchesUID_def plainVault_def
        plainMetadata_def uidKey_def)
  have scan: "noteMatchesUID plainVault ''null'' (TFile ''plain.md'')"
    by (simp add: noteMatchesUID_def parseFrontMatterEntry_def includes_js_def flatMap_def
        plainVault_def plainMetadata_def uidKey_def)
  have files: "getMarkdownFiles plainVault = [TFile ''plain.md'']"
    by (simp add: plainVault_def)
  have found: "filepathForUID plainVault ''null'' = success ''plain.md''"
    by (simp add: filepathForUID_def cache findPathForUIDInMarkdownFiles_def files scan
        orElse_def)
  have there: "existingNotePath plainVault ''plain.md''"
    by (simp add: plainVault_def)
  have soft: "softValidateNoteTargetingAndResolvePath plainVault
       \<lparr> file = None, uid = Some ''null'', periodic_note = None \<rparr> []
     = ([], Some \<lparr> data = \<lparr> file = None, uid = Some ''null'', periodic_note = None \<rparr>,
                 computed = \<lparr> inputKey = ''uid'', path = ''plain.md'', pathExists = True \<rparr> \<rparr>)"
    by (simp add: softValidateNoteTargetingAndResolvePath_def
        validateNoteTargetingAndResolvePath_def keyIn_def found there)
  have hard: "hardValidateNoteTargetingAndResolvePath plainVault
       \<lparr> file = None, uid = Some ''null'', periodic_note = None \<rparr> []
     = ([], Some \<lparr> data = \<lparr> file = None, uid = Some ''null'', periodic_note = None \<rparr>,
                 computed = \<lparr> inputKey = ''uid'', path = ''plain.md'', pathExists = True \<rparr> \<rparr>)"
    by (simp add: hardValidateNoteTargetingAndResolvePath_def
        validateNoteTargetingAndResolvePath_def keyIn_def found there)
  from nomatch cache scan found soft hard show ?thesis by simp
qed

text \<open>
  Claim C4 holds of a correct lookup, and the code misses it. In
  \<open>editedNoteVault\<close> exactly one note exists, and its front matter lists the uid
  \<^verbatim>\<open>abc\<close>: the predicate of the cache search accepts it. The cache search
  stops at the entry of the note's old content, to which no file refers, and
  returns nothing. The scan of the markdown notes then coerces the whole list to
  the one string \<^verbatim>\<open>abc,def\<close> (\<open>flatMap\<close> where the cache search has \<open>flat\<close>
  followed by \<open>map\<close>) and rejects the note. The lookup fails and the resolved
  path is empty, where the claim gives \<^verbatim>\<open>N.md\<close>.
\<close>

theorem uid_list_missed_by_fallback:
  "cachedMatchesUID ''abc'' listUidMetadata \<and>
   getFileCache editedNoteVault (TFile ''N.md'') = Some listUidMetadata \<and>
   findPathForUIDInMetadataCache editedNoteVault ''abc'' = None \<and>
   \<not> noteMatchesUID editedNoteVault ''abc'' (TFile ''N.md'') \<and>
   filepathForUID editedNoteVault ''abc'' = failure (Status 404) note_not_found \<and>
   softValidateNoteTargetingAndResolvePath editedNoteVault
       \<lparr> file = None, uid = Some ''abc'', periodic_note = None \<rparr> []
     = ([], Some \<lparr> data = \<lparr> file = None, uid = Some ''abc'', periodic_note = None \<rparr>,
                 computed = \<lparr> inputKey = ''uid'', path = [], pathExists = False \<rparr> \<rparr>)"
  by (simp add: softValidateNoteTargetingAndResolvePath_def
      hardValidateNoteTargetingAndResolvePath_def
      validateNoteTargetingAndResolvePath_def keyIn_def addIssue_def
      filepathForUID_def editedNoteVault_def listUidMetadata_def
      findPathForUIDInMetadataCache_def findPathForUIDInMarkdownFiles_def
      cachedMatchesUID_def noteMatchesUID_def orElse_def uidKey_def includes_js_def
      flatMap_def parseFrontMatterEntry_def)

section \<open>Properties of the callback and open-note steps\<close>

text \<open>
  Claim C5. For validated parameters: if the handler result is a success and
  \<open>x-success\<close> is present, \<open>sendUrlCallback\<close> is called once, with that URL,
  the result and the parameters. If the result is a failure and \<open>x-error\<close> is
  present, it is called once with that URL and the failure, which carries the
  failure's code and message. If the relevant field is absent, no call is made
  and a success-tagged informational string result is returned.
\<close>

theorem callback_rule_validated:
  assumes "callbackUrlsValidated ps"
  shows "(handlerIsSuccess h \<and> x_success ps = Some url \<longrightarrow>
            sendUrlCallbackIfNeeded ext h ps
              = (sendUrlCallback ext url h ps, [SendUrlCallback url h ps])) \<and>
         (h = HandlerFailure c m \<and> x_error ps = Some url \<longrightarrow>
            sendUrlCallbackIfNeeded ext h ps
              = (sendUrlCallback ext url (HandlerFailure c m) ps,
                 [SendUrlCallback url (HandlerFailure c m) ps])) \<and>
         (handlerIsSuccess h \<and> x_success ps = None \<longrightarrow>
            sendUrlCallbackIfNeeded ext h ps
              = (success ''No `x-success` callback URL provided'', [])) \<and>
         (\<not> handlerIsSuccess h \<and> x_error ps = None \<longrightarrow>
            sendUrlCallbackIfNeeded ext h ps
              = (success ''No `x-error` callback URL provided'', []))"
  using assms
  by (auto simp: sendUrlCallbackIfNeeded_def callbackUrlsValidated_def)

theorem callback_rule_validated_witness:
  "sendUrlCallbackIfNeeded reportingCollaborators (HandlerSuccess ''done'' None)
       \<lparr> x_success = Some ''app://ok'', x_error = None, silent = None \<rparr>
     = (success ''Callback sent'',
        [SendUrlCallback ''app://ok'' (HandlerSuccess ''done'' None)
           \<lparr> x_success = Some ''app://ok'', x_error = None, silent = None \<rparr>]) \<and>
   sendUrlCallbackIfNeeded reportingCollaborators (HandlerFailure (Status 404) ''Note not found'')
       \<lparr> x_success = None, x_error = Some ''app://err'', silent = None \<rparr>
     = (success ''Callback sent'',
        [SendUrlCallback ''app://err'' (HandlerFailure (Status 404) ''Note not found'')
           \<lparr> x_success = None, x_error = Some ''app://err'', silent = None \<rparr>]) \<and>
   sendUrlCallbackIfNeeded reportingCollaborators (HandlerSuccess ''done'' None)
       \<lparr> x_success = None, x_error = Some ''app://err'', silent = None \<rparr>
     = (success ''No `x-success` callback URL provided'', []) \<and>
   sendUrlCallbackIfNeeded reportingCollaborators (HandlerFailure (Status 404) ''Note not found'')
       \<lparr> x_success = Some ''app://ok'', x_error = None, silent = None \<rparr>
     = (success ''No `x-error` callback URL provided'', [])"
  using
    callback_rule_validated [of "\<lparr> x_success = Some ''app://ok'', x_error = None, silent = None \<rparr>"
      "HandlerSuccess ''done'' None" "''app://ok''" reportingCollaborators]
    callback_rule_validated [of "\<lparr> x_success = None, x_error = Some ''app://err'', silent = None \<rparr>"
      "HandlerFailure (Status 404) ''Note not found''" "''app://err''" reportingCollaborators
      "Status 404" "''Note not found''"]
    callback_rule_validated [of "\<lparr> x_success = None, x_error = Some ''app://err'', silent = None \<rparr>"
      "HandlerSuccess ''done'' None" "''app://err''" reportingCollaborators]
    callback_rule_validated [of "\<lparr> x_success = Some ''app://ok'', x_error = None, silent = None \<rparr>"
      "HandlerFailure (Status 404) ''Note not found''" "''app://ok''" reportingCollaborators]
  by (simp add: reportingCollaborators_def callbackUrlsValidated_def)

text \<open>
  Claim C6. For a call whose handler succeeds, with \<open>x-success\<close> set and a truthy
  \<open>silent\<close> flag, the success callback is still sent, and the open-note step
  opens nothing and returns the informational result about \<open>silent\<close>: the only
  events are the handler call, the callback and the final log entry.
\<close>

theorem silent_keeps_callback:
  assumes "handlerFunc ps = HandlerSuccess r f"
    and "x_success ps = Some url" and "url \<noteq> []"
    and "truthyValue (silent ps)"
  shows "snd (handleIncomingCall ext handlerFunc ps)
           = [HandlerCalled ps, SendUrlCallback url (HandlerSuccess r f) ps,
              LogToConsole ''Call handled:'' (fst (handleIncomingCall ext handlerFunc ps))] \<and>
         sendCallbackResult (fst (handleIncomingCall ext handlerFunc ps))
           = sendUrlCallback ext url (HandlerSuccess r f) ps \<and>
         openResult (fst (handleIncomingCall ext handlerFunc ps))
           = success ''No file to open, the `silent` parameter was set'' \<and>
         (\<forall>e \<in> set (snd (handleIncomingCall ext handlerFunc ps)). \<not> isOpenNote e)"
  using assms
  by (simp add: handleIncomingCall_def sendUrlCallbackIfNeeded_def openFileIfNeeded_def Let_def)

theorem silent_keeps_callback_witness:
  "snd (handleIncomingCall reportingCollaborators
          (\<lambda>ps. HandlerSuccess ''done'' (Some ''N.md'')) silentParams)
     = [HandlerCalled silentParams,
        SendUrlCallback ''app://ok'' (HandlerSuccess ''done'' (Some ''N.md'')) silentParams,
        LogToConsole ''Call handled:''
          \<lparr> params = silentParams, handlerResult = HandlerSuccess ''done'' (Some ''N.md''),
            sendCallbackResult = success ''Callback sent'',
            openResult = success ''No file to open, the `silent` parameter was set'' \<rparr>]"
  using silent_keeps_callback [of "\<lambda>ps. HandlerSuccess ''done'' (Some ''N.md'')" silentParams
      "''done''" "Some ''N.md''" "''app://ok''" reportingCollaborators]
  by (simp add: silentParams_def handleIncomingCall_def sendUrlCallbackIfNeeded_def
      openFileIfNeeded_def reportingCollaborators_def Let_def)

section \<open>Properties of the dispatcher\<close>

lemma sublist_join:
  "x \<in> set xs \<Longrightarrow> sublist x (join sep xs)"
proof (induction sep xs rule: join.induct)
  case (1 sep)
  then show ?case by simp
next
  case (2 sep y)
  then show ?case by simp
next
  case (3 sep a b ys)
  show ?case
  proof (cases "x = a")
    case True
    then show ?thesis by simp
  next
    case False
    with 3 have "sublist x (join sep (b # ys))" by simp
    then obtain ps ss where "join sep (b # ys) = ps @ x @ ss"
      by (auto simp: sublist_def)
    then have "join sep (a # b # ys) = (a @ sep @ ps) @ x @ ss" by simp
    then show ?thesis unfolding sublist_def by blast
  qed
qed

text \<open>
  Claim C7. When the raw parameters fail schema validation, the dispatcher calls
  no handler and sends no callback: all it does is surface one message, as a
  notice and in the error log. For every issue of the Zod error, the message
  contains the issue's field path, joined by dots, followed by a colon, a blank
  and the issue's message.
\<close>

theorem parse_error_reported:
  assumes "safeParse incomingParams = Inl parseError"
  shows "(\<exists>msg. protocolHandler ext safeParse handler incomingParams
                 = [ShowBrandedNotice msg, LogErrorToConsole msg] \<and>
               (\<forall>issue \<in> set (errors parseError).
                  sublist (join ''.'' (map pathElementString (ZodIssue.path issue)) @ '': '' @ message issue)
                    msg)) \<and>
         (\<forall>e \<in> set (protocolHandler ext safeParse handler incomingParams).
            \<not> isHandlerCall e \<and> \<not> isCallback e)"
proof -
  let ?line = "\<lambda>issue. ''- '' @ join ''.'' (map pathElementString (ZodIssue.path issue))
                 @ '': '' @ message issue"
  let ?msg = "join [CHR 0x0A] (''Incoming call failed'' # map ?line (errors parseError))"
  have events: "protocolHandler ext safeParse handler incomingParams
      = [ShowBrandedNotice ?msg, LogErrorToConsole ?msg]"
    using assms by (simp add: protocolHandler_def handleParseError_def Let_def)
  have "sublist (join ''.'' (map pathElementString (ZodIssue.path issue)) @ '': '' @ message issue) ?msg"
    if "issue \<in> set (errors parseError)" for issue
  proof -
    from that have "?line issue \<in> set (''Incoming call failed'' # map ?line (errors parseError))"
      by simp
    then have "sublist (?line issue) ?msg" by (rule sublist_join)
    then obtain ps ss where "?msg = ps @ ?line issue @ ss"
      by (auto simp: sublist_def)
    then have "?msg = (ps @ ''- '') @
        (join ''.'' (map pathElementString (ZodIssue.path issue)) @ '': '' @ message issue) @ ss"
      by simp
    then show ?thesis unfolding sublist_def by blast
  qed
  with events have reported: "\<exists>msg. protocolHandler ext safeParse handler incomingParams
                 = [ShowBrandedNotice msg, LogErrorToConsole msg] \<and>
               (\<forall>issue \<in> set (errors parseError).
                  sublist (join ''.'' (map pathElementString (ZodIssue.path issue)) @ '': '' @ message issue)
                    msg)"
    by blast
  from events have "\<forall>e \<in> set (protocolHandler ext safeParse handler incomingParams).
      \<not> isHandlerCall e \<and> \<not> isCallback e"
    by simp
  with reported show ?thesis by (rule conjI)
qed

theorem parse_error_reported_witness:
  "\<exists>msg. protocolHandler reportingCollaborators (\<lambda>raw. Inl twoIssues)
             (\<lambda>ps. HandlerSuccess ''done'' None) ''file=''
           = [ShowBrandedNotice msg, LogErrorToConsole msg] \<and>
         sublist ''file: Required'' msg \<and> sublist ''items.0: Invalid url'' msg"
  using conjunct1 [OF parse_error_reported [of "\<lambda>raw. Inl twoIssues" "''file=''" twoIssues
      reportingCollaborators "\<lambda>ps. HandlerSuccess ''done'' None"]]
  by (simp add: twoIssues_def showNat.simps digitChar_def)

text \<open>
  Claim C8. For a validated call the steps are in this order: the handler is
  called first; then come the events of the callback step, each a callback that
  carries the handler's result; then those of the open-note step; the last event
  logs the processing result, which aggregates the parameters, the handler's
  result, the callback outcome and the open outcome, and is what is returned.
\<close>

theorem pipeline_order:
  "fst (handleIncomingCall ext handlerFunc ps)
     = \<lparr> params = ps, handlerResult = handlerFunc ps,
         sendCallbackResult = fst (sendUrlCallbackIfNeeded ext (handlerFunc ps) ps),
         openResult = fst (openFileIfNeeded ext (handlerFunc ps) ps) \<rparr> \<and>
   snd (handleIncomingCall ext handlerFunc ps)
     = [HandlerCalled ps] @ snd (sendUrlCallbackIfNeeded ext (handlerFunc ps) ps)
         @ snd (openFileIfNeeded ext (handlerFunc ps) ps)
         @ [LogToConsole ''Call handled:'' (fst (handleIncomingCall ext handlerFunc ps))] \<and>
   (\<forall>e \<in> set (snd (sendUrlCallbackIfNeeded ext (handlerFunc ps) ps)).
      \<exists>url. e = SendUrlCallback url (handlerFunc ps) ps) \<and>
   (\<forall>e \<in> set (snd (openFileIfNeeded ext (handlerFunc ps) ps)). \<exists>p. e = FocusOrOpenNote p)"
  by (simp add: handleIncomingCall_def sendUrlCallbackIfNeeded_def openFileIfNeeded_def
      Let_def split_def)

theorem pipeline_order_witness:
  "handleIncomingCall reportingCollaborators (\<lambda>ps. HandlerSuccess ''done'' (Some ''N.md'')) loudParams
     = (\<lparr> params = loudParams, handlerResult = HandlerSuccess ''done'' (Some ''N.md''),
           sendCallbackResult = success ''Callback sent'', openResult = success ''Note opened'' \<rparr>,
        [HandlerCalled loudParams,
         SendUrlCallback ''app://ok'' (HandlerSuccess ''done'' (Some ''N.md'')) loudParams,
         FocusOrOpenNote ''N.md'',
         LogToConsole ''Call handled:''
           \<lparr> params = loudParams, handlerResult = HandlerSuccess ''done'' (Some ''N.md''),
             sendCallbackResult = success ''Callback sent'', openResult = success ''Note opened'' \<rparr>])"
proof -
  have cb: "sendUrlCallbackIfNeeded reportingCollaborators (HandlerSuccess ''done'' (Some ''N.md'')) loudParams
      = (success ''Callback sent'',
         [SendUrlCallback ''app://ok'' (HandlerSuccess ''done'' (Some ''N.md'')) loudParams])"
    by (simp add: sendUrlCallbackIfNeeded_def loudParams_def reportingCollaborators_def)
  have op: "openFileIfNeeded reportingCollaborators (HandlerSuccess ''done'' (Some ''N.md'')) loudParams
      = (success ''Note opened'', [FocusOrOpenNote ''N.md''])"
    by (simp add: openFileIfNeeded_def loudParams_def reportingCollaborators_def)
  from pipeline_order [of reportingCollaborators "\<lambda>ps. HandlerSuccess ''done'' (Some ''N.md'')" loudParams]
  show ?thesis
    by (simp add: cb op prod_eq_iff)
qed

text \<open>
  Claim C9. The open-note step calls \<open>focusOrOpenNote\<close> on a path exactly when
  the handler result is a success, \<open>silent\<close> is not set and that path is the
  non-empty processed path of the result, and then it returns what that call
  returns. After a failure it opens nothing. Each of the three branches that do
  not act returns a success-tagged string, and the three strings differ.
\<close>

theorem open_note_rule:
  "(\<forall>p. FocusOrOpenNote p \<in> set (snd (openFileIfNeeded ext h ps)) \<longleftrightarrow>
        handlerIsSuccess h \<and> \<not> truthyValue (silent ps) \<and> processedFilepath h = Some p \<and> p \<noteq> []) \<and>
   (\<forall>p. FocusOrOpenNote p \<in> set (snd (openFileIfNeeded ext h ps)) \<longrightarrow>
        openFileIfNeeded ext h ps = (focusOrOpenNote ext p, [FocusOrOpenNote p])) \<and>
   (\<not> handlerIsSuccess h \<longrightarrow>
      openFileIfNeeded ext h ps = (success ''No file to open, the handler failed'', [])) \<and>
   (handlerIsSuccess h \<and> truthyValue (silent ps) \<longrightarrow>
      openFileIfNeeded ext h ps = (success ''No file to open, the `silent` parameter was set'', [])) \<and>
   (handlerIsSuccess h \<and> \<not> truthyValue (silent ps) \<and> \<not> truthyString (processedFilepath h) \<longrightarrow>
      openFileIfNeeded ext h ps
        = (success ''No file to open, handler didn't return a `processedFilepath` property'', [])) \<and>
   distinct [''No file to open, the handler failed'',
             ''No file to open, the `silent` parameter was set'',
             ''No file to open, handler didn't return a `processedFilepath` property'']"
proof (cases h)
  case (HandlerSuccess r f)
  then show ?thesis
    by (cases f) (auto simp: openFileIfNeeded_def)
next
  case (HandlerFailure c m)
  then show ?thesis
    by (auto simp: openFileIfNeeded_def)
qed

theorem open_note_rule_witness:
  "openFileIfNeeded reportingCollaborators (HandlerSuccess ''done'' (Some ''N.md''))
       \<lparr> x_success = None, x_error = None, silent = None \<rparr>
     = (success ''Note opened'', [FocusOrOpenNote ''N.md'']) \<and>
   openFileIfNeeded reportingCollaborators (HandlerFailure (Status 404) ''Note not found'')
       \<lparr> x_success = None, x_error = None, silent = None \<rparr>
     = (success ''No file to open, the handler failed'', []) \<and>
   openFileIfNeeded reportingCollaborators (HandlerSuccess ''done'' (Some ''N.md''))
       \<lparr> x_success = None, x_error = None, silent = Some (JStr ''true'') \<rparr>
     = (success ''No file to open, the `silent` parameter was set'', []) \<and>
   openFileIfNeeded reportingCollaborators (HandlerSuccess ''done'' None)
       \<lparr> x_success = None, x_error = None, silent = None \<rparr>
     = (success ''No file to open, handler didn't return a `processedFilepath` property'', [])"
proof -
  have shown: "FocusOrOpenNote ''N.md'' \<in> set (snd (openFileIfNeeded reportingCollaborators
      (HandlerSuccess ''done'' (Some ''N.md'')) \<lparr> x_success = None, x_error = None, silent = None \<rparr>))"
    using open_note_rule [of reportingCollaborators "HandlerSuccess ''done'' (Some ''N.md'')"
        "\<lparr> x_success = None, x_error = None, silent = None \<rparr>"]
    by simp
  from shown
    open_note_rule [of reportingCollaborators "HandlerSuccess ''done'' (Some ''N.md'')"
        "\<lparr> x_success = None, x_error = None, silent = None \<rparr>"]
  have first: "openFileIfNeeded reportingCollaborators (HandlerSuccess ''done'' (Some ''N.md''))
       \<lparr> x_success = None, x_error = None, silent = None \<rparr>
     = (success ''Note opened'', [FocusOrOpenNote ''N.md''])"
    by (simp add: reportingCollaborators_def)
  from first
    open_note_rule [of reportingCollaborators "HandlerFailure (Status 404) ''Note not found''"
      "\<lparr> x_success = None, x_error = None, silent = None \<rparr>"]
    open_note_rule [of reportingCollaborators "HandlerSuccess ''done'' (Some ''N.md'')"
      "\<lparr> x_success = None, x_error = None, silent = Some (JStr ''true'') \<rparr>"]
    open_note_rule [of reportingCollaborators "HandlerSuccess ''done'' None"
      "\<lparr> x_success = None, x_error = None, silent = None \<rparr>"]
  show ?thesis by simp
qed

end
